theory Spec2Isabelle
  imports Main "HOL-Library.AList" "HOL-Library.Multiset"
begin

section \<open>Decimal rendering of indices\<close>

text \<open>
  The keys of the state dict are built with f-strings such as
  \<^verbatim>\<open>f"model.layers.{layer_i}.post_attention_layernorm.weight"\<close>, where
  \<^verbatim>\<open>layer_i\<close> comes from \<^verbatim>\<open>enumerate\<close> and is a non-negative int.
  \<open>str_nat\<close> is Python's decimal rendering of such an int: no sign, no leading zero.
\<close>

definition digit_char :: "nat \<Rightarrow> char" where
  "digit_char d = ''0123456789'' ! d"

fun str_nat :: "nat \<Rightarrow> string" where
  "str_nat n = (if n < 10 then [digit_char n] else str_nat (n div 10) @ [digit_char (n mod 10)])"

declare str_nat.simps [simp del]

definition is_digit :: "char \<Rightarrow> bool" where
  "is_digit c = (c \<in> set ''0123456789'')"

definition digit_val :: "char \<Rightarrow> nat" where
  "digit_val c = of_char c - 48"

text \<open>Reading a run of decimal digits back as a number (Python's \<^verbatim>\<open>int(s)\<close> on digits).\<close>

definition nat_of_str :: "string \<Rightarrow> nat" where
  "nat_of_str s = foldl (\<lambda>acc c. 10 * acc + digit_val c) 0 s"

section \<open>Errors\<close>

text \<open>The exceptions of the modelled code, as values.\<close>

datatype error = KeyError string | ShapeMismatch | ArityMismatch | TypeError | DuplicateKey string

section \<open>Configurations\<close>

text \<open>
  Python's list repetition \<^verbatim>\<open>xs * k\<close>: the empty list when \<^verbatim>\<open>k\<close> is zero or
  negative.
\<close>

definition list_mul :: "'a list \<Rightarrow> int \<Rightarrow> 'a list" where
  "list_mul xs k = concat (replicate (nat k) xs)"

text \<open>
  The fields of \<^verbatim>\<open>DeepSeekConfig\<close> that the modelled code reads or sets. The class
  inherits most of them from its base classes, which are outside this file; an attribute
  that a base class may not declare at all (\<^verbatim>\<open>moe_router_enable_expert_bias\<close>, read
  through \<^verbatim>\<open>hasattr\<close>) is optional, and so is one whose value may be \<^verbatim>\<open>None\<close>.
  \<^verbatim>\<open>moe_layer_freq\<close> is the list form of the attribute, the one the importer builds
  and the renaming pass enumerates.
\<close>

record deepseek_config =
  num_layers :: int
  ffn_hidden_size :: int
  num_moe_experts :: int
  moe_ffn_hidden_size :: int
  moe_shared_expert_intermediate_size :: int
  moe_layer_freq :: "int list"
  moe_router_topk :: int
  moe_router_topk_limited_devices :: "int option"
  expert_model_parallel_size :: int
  make_vocab_size_divisible_by :: int
  moe_router_score_function :: string
  moe_router_enable_expert_bias :: "bool option"

text \<open>
  \<^verbatim>\<open>DeepSeekConfig.__post_init__\<close>. The call \<^verbatim>\<open>super().__post_init__()\<close> runs code of
  the base classes, which may raise or update the object: it is the parameter
  \<open>super_post_init\<close>.
\<close>

definition DeepSeekConfig_post_init ::
  "(deepseek_config \<Rightarrow> error + deepseek_config) \<Rightarrow> deepseek_config \<Rightarrow> error + deepseek_config" where
  "DeepSeekConfig_post_init super_post_init self =
     super_post_init
       (case moe_router_topk_limited_devices self of
          None \<Rightarrow> self
        | Some limited \<Rightarrow>
            self\<lparr>moe_router_topk_limited_devices :=
                   Some (min limited (expert_model_parallel_size self))\<rparr>)"

text \<open>
  The defaults the two model classes declare, over the inherited defaults of the other
  fields.
\<close>

definition DeepSeekV2Config :: "deepseek_config \<Rightarrow> deepseek_config" where
  "DeepSeekV2Config inherited = inherited\<lparr>
     num_layers := 60,
     ffn_hidden_size := 12288,
     num_moe_experts := 160,
     moe_ffn_hidden_size := 1536,
     moe_shared_expert_intermediate_size := 3072,
     moe_layer_freq := [0] @ list_mul [1] 59,
     moe_router_topk := 6,
     moe_router_topk_limited_devices := Some 3,
     moe_router_score_function := ''softmax''\<rparr>"

definition DeepSeekV3Config :: "deepseek_config \<Rightarrow> deepseek_config" where
  "DeepSeekV3Config inherited = inherited\<lparr>
     num_layers := 61,
     ffn_hidden_size := 18432,
     num_moe_experts := 256,
     moe_ffn_hidden_size := 2048,
     moe_shared_expert_intermediate_size := 2048,
     moe_layer_freq := list_mul [0] 3 @ list_mul [1] 58,
     moe_router_topk := 8,
     moe_router_topk_limited_devices := Some 4,
     make_vocab_size_divisible_by := 1280,
     moe_router_score_function := ''sigmoid'',
     moe_router_enable_expert_bias := Some True\<rparr>"

text \<open>
  The fields of the Hugging Face configuration that \<^verbatim>\<open>HFDeepSeekImporter.config\<close>
  reads (integers and the scoring function; the floating-point and dtype fields are left
  out).
\<close>

record hf_config =
  num_hidden_layers :: int
  first_k_dense_replace :: int
  scoring_func :: string
  intermediate_size :: int
  n_routed_experts :: int
  moe_intermediate_size :: int
  n_shared_experts :: int
  num_experts_per_tok :: int
  topk_group :: "int option"

text \<open>The \<^verbatim>\<open>moe_layer_freq\<close> argument the importer passes to \<^verbatim>\<open>DeepSeekConfig\<close>.\<close>

definition importer_moe_layer_freq :: "hf_config \<Rightarrow> int list" where
  "importer_moe_layer_freq source =
     (let n_moe_layers = num_hidden_layers source - first_k_dense_replace source
      in list_mul [0] (first_k_dense_replace source) @ list_mul [1] n_moe_layers)"

text \<open>
  \<^verbatim>\<open>HFDeepSeekImporter.config\<close>: the constructor call, which ends in
  \<^verbatim>\<open>__post_init__\<close>. \<open>inherited\<close> holds the defaults of the fields the call does not
  pass.
\<close>

definition importer_config ::
  "deepseek_config \<Rightarrow> (deepseek_config \<Rightarrow> error + deepseek_config) \<Rightarrow> hf_config \<Rightarrow>
   error + deepseek_config" where
  "importer_config inherited super_post_init source =
     (let is_v3 = (scoring_func source = ''sigmoid'');
          passed = inherited\<lparr>
            num_layers := num_hidden_layers source,
            ffn_hidden_size := intermediate_size source,
            num_moe_experts := n_routed_experts source,
            moe_ffn_hidden_size := moe_intermediate_size source,
            moe_shared_expert_intermediate_size :=
              moe_intermediate_size source * n_shared_experts source,
            moe_layer_freq := importer_moe_layer_freq source,
            moe_router_topk := num_experts_per_tok source,
            moe_router_topk_limited_devices := topk_group source,
            make_vocab_size_divisible_by := (if is_v3 then 1280 else 3200)\<rparr>;
          v3_kwargs = (if is_v3
            then passed\<lparr>moe_router_score_function := ''sigmoid'',
                         moe_router_enable_expert_bias := Some True\<rparr>
            else passed)
      in DeepSeekConfig_post_init super_post_init v3_kwargs)"

section \<open>The state dict and the renaming pass\<close>

text \<open>
  A Python dict keeps its entries in insertion order with unique keys: an association
  list. \<^verbatim>\<open>d.pop(k)\<close> raises \<^verbatim>\<open>KeyError\<close> when the key is absent and removes the
  entry otherwise; \<^verbatim>\<open>d[k] = v\<close> overwrites the entry in place when the key is present
  and appends a new entry otherwise (\<open>AList.update\<close>).
\<close>

type_synonym 'v state_dict = "(string \<times> 'v) list"

definition dict_pop :: "string \<Rightarrow> 'v state_dict \<Rightarrow> error + ('v \<times> 'v state_dict)" where
  "dict_pop k d = (case map_of d k of
                     None \<Rightarrow> Inl (KeyError k)
                   | Some w \<Rightarrow> Inr (w, AList.delete k d))"

definition dict_setitem :: "string \<Rightarrow> 'v \<Rightarrow> 'v state_dict \<Rightarrow> 'v state_dict" where
  "dict_setitem k w d = AList.update k w d"

definition post_attention_key :: "nat \<Rightarrow> string" where
  "post_attention_key layer_i =
     ''model.layers.'' @ str_nat layer_i @ ''.post_attention_layernorm.weight''"

definition dense_post_attention_key :: "nat \<Rightarrow> string" where
  "dense_post_attention_key layer_i =
     ''model.layers.'' @ str_nat layer_i @ ''.dense-post_attention_layernorm.weight''"

text \<open>
  The loop of \<^verbatim>\<open>HFDeepSeekImporter._modify_source_state\<close>:
  \<^verbatim>\<open>for layer_i, use_moe in enumerate(self.config.moe_layer_freq)\<close>, with the
  running index as the first argument. The first failing \<^verbatim>\<open>pop\<close> ends the run.
\<close>

fun modify_loop :: "nat \<Rightarrow> int list \<Rightarrow> 'v state_dict \<Rightarrow> error + 'v state_dict" where
  "modify_loop layer_i [] state_dict = Inr state_dict"
| "modify_loop layer_i (use_moe # rest) state_dict =
     (if use_moe = 0 then
        (case dict_pop (post_attention_key layer_i) state_dict of
           Inl e \<Rightarrow> Inl e
         | Inr (weight, popped) \<Rightarrow>
             modify_loop (Suc layer_i) rest
               (dict_setitem (dense_post_attention_key layer_i) weight popped))
      else modify_loop (Suc layer_i) rest state_dict)"

definition modify_source_state :: "deepseek_config \<Rightarrow> 'v state_dict \<Rightarrow> error + 'v state_dict" where
  "modify_source_state config state_dict = modify_loop 0 (moe_layer_freq config) state_dict"

text \<open>A two-layer configuration for the examples: only \<open>moe_layer_freq\<close> matters to the pass.\<close>

definition tiny_config :: "int list \<Rightarrow> deepseek_config" where
  "tiny_config freq = \<lparr>
     num_layers = int (length freq), ffn_hidden_size = 8, num_moe_experts = 2,
     moe_ffn_hidden_size = 4, moe_shared_expert_intermediate_size = 4,
     moe_layer_freq = freq, moe_router_topk = 1,
     moe_router_topk_limited_devices = None, expert_model_parallel_size = 1,
     make_vocab_size_divisible_by = 3200, moe_router_score_function = ''softmax'',
     moe_router_enable_expert_bias = None\<rparr>"

section \<open>The mapping table of convert_state\<close>

text \<open>
  The dict \<^verbatim>\<open>mapping\<close> of \<^verbatim>\<open>HFDeepSeekImporter.convert_state\<close>, in the order of the
  literal, and the entry that \<^verbatim>\<open>mapping.update\<close> adds under
  \<^verbatim>\<open>hasattr(self.config, "moe_router_enable_expert_bias") and
  self.config.moe_router_enable_expert_bias\<close>.
\<close>

definition base_mapping :: "(string \<times> string) list" where
  "base_mapping = [
     (''model.embed_tokens.weight'', ''embedding.word_embeddings.weight''),
     (''model.layers.*.input_layernorm.weight'', ''decoder.layers.*.input_layernorm.weight''),
     (''model.layers.*.self_attn.o_proj.weight'',
        ''decoder.layers.*.self_attention.linear_proj.weight''),
     (''model.layers.*.self_attn.q_a_proj.weight'',
        ''decoder.layers.*.self_attention.linear_q_down_proj.weight''),
     (''model.layers.*.self_attn.q_b_proj.weight'',
        ''decoder.layers.*.self_attention.linear_q_up_proj.weight''),
     (''model.layers.*.self_attn.kv_a_proj_with_mqa.weight'',
        ''decoder.layers.*.self_attention.linear_kv_down_proj.weight''),
     (''model.layers.*.self_attn.kv_b_proj.weight'',
        ''decoder.layers.*.self_attention.linear_kv_up_proj.weight''),
     (''model.layers.*.self_attn.q_a_layernorm.weight'',
        ''decoder.layers.*.self_attention.q_layernorm.weight''),
     (''model.layers.*.self_attn.kv_a_layernorm.weight'',
        ''decoder.layers.*.self_attention.kv_layernorm.weight''),
     (''model.layers.*.dense-post_attention_layernorm.weight'',
        ''decoder.layers.*.mlp.linear_fc1.layer_norm_weight''),
     (''model.layers.*.post_attention_layernorm.weight'',
        ''decoder.layers.*.pre_mlp_layernorm.weight''),
     (''model.layers.*.mlp.down_proj.weight'', ''decoder.layers.*.mlp.linear_fc2.weight''),
     (''model.layers.*.mlp.gate.weight'', ''decoder.layers.*.mlp.router.weight''),
     (''model.layers.*.mlp.experts.*.down_proj.weight'',
        ''decoder.layers.*.mlp.experts.linear_fc2.weight*''),
     (''model.layers.*.mlp.shared_experts.down_proj.weight'',
        ''decoder.layers.*.mlp.shared_experts.linear_fc2.weight''),
     (''model.norm.weight'', ''decoder.final_layernorm.weight''),
     (''lm_head.weight'', ''output_layer.weight'')]"

definition expert_bias_source :: string where
  "expert_bias_source = ''model.layers.*.mlp.gate.e_score_correction_bias''"

definition expert_bias_target :: string where
  "expert_bias_target = ''decoder.layers.*.mlp.router.expert_bias''"

definition convert_state_mapping :: "deepseek_config \<Rightarrow> (string \<times> string) list" where
  "convert_state_mapping config =
     (if moe_router_enable_expert_bias config \<noteq> None
         \<and> the (moe_router_enable_expert_bias config)
      then AList.update expert_bias_source expert_bias_target base_mapping
      else base_mapping)"

text \<open>A small Hugging Face configuration for the examples, by its two layer counts.\<close>

definition tiny_hf_config :: "int \<Rightarrow> int \<Rightarrow> hf_config" where
  "tiny_hf_config n k = \<lparr>
     num_hidden_layers = n, first_k_dense_replace = k, scoring_func = ''softmax'',
     intermediate_size = 8, n_routed_experts = 2, moe_intermediate_size = 4,
     n_shared_experts = 1, num_experts_per_tok = 1, topk_group = Some 1\<rparr>"

text \<open>
  The list \<^verbatim>\<open>transforms\<close> of \<open>convert_state\<close>: each \<^verbatim>\<open>io.state_transform\<close> with its
  tuple of source patterns in the declared order, its target pattern and its function.
\<close>

datatype transform_fn = merge_fc1

record state_transform =
  source_key :: "string list"
  target_key :: string
  fn :: transform_fn

definition convert_state_transforms :: "state_transform list" where
  "convert_state_transforms = [
     \<lparr>source_key = [''model.layers.*.mlp.gate_proj.weight'',
                     ''model.layers.*.mlp.up_proj.weight''],
      target_key = ''decoder.layers.*.mlp.linear_fc1.weight'',
      fn = merge_fc1\<rparr>,
     \<lparr>source_key = [''model.layers.*.mlp.experts.*.gate_proj.weight'',
                     ''model.layers.*.mlp.experts.*.up_proj.weight''],
      target_key = ''decoder.layers.*.mlp.experts.linear_fc1.weight*'',
      fn = merge_fc1\<rparr>,
     \<lparr>source_key = [''model.layers.*.mlp.shared_experts.gate_proj.weight'',
                     ''model.layers.*.mlp.shared_experts.up_proj.weight''],
      target_key = ''decoder.layers.*.mlp.shared_experts.linear_fc1.weight'',
      fn = merge_fc1\<rparr>]"

text \<open>
  Every rule \<open>convert_state\<close> hands to \<^verbatim>\<open>io.apply_transforms\<close>, as source patterns and
  target pattern: the entries of the mapping table, then the transforms.
\<close>

definition convert_state_rules :: "deepseek_config \<Rightarrow> (string list \<times> string) list" where
  "convert_state_rules config =
     map (\<lambda>(source, target). ([source], target)) (convert_state_mapping config) @
     map (\<lambda>t. (source_key t, target_key t)) convert_state_transforms"

section \<open>The key pattern matcher\<close>

text \<open>
  Modelled from the spec: the Key Pattern Matcher of section 4.1 (\<open>match\<close> and
  \<open>substitute\<close>); the engine behind \<^verbatim>\<open>io.apply_transforms\<close> is not among the sources.
  A pattern is compiled once into literal and wildcard tokens. A wildcard is the
  character \<^verbatim>\<open>*\<close>; it matches a non-empty run of decimal digits, read as a non-negative
  integer, and the text between wildcards is literal and matches byte for byte. The
  integers are collected from left to right into the binding. Where the wildcard is a
  whole dotted segment this is the segment-wise matching of the spec (a run of digits
  holds no dot, so a match has the pattern's segment count); it also reads the target
  pattern \<^verbatim>\<open>decoder.layers.*.mlp.experts.linear_fc2.weight*\<close> of \<open>convert_state\<close>, whose
  second wildcard ends a segment. \<open>substitute\<close> fills the wildcards of a pattern with the
  integers of a binding, in order; a binding whose length is not the pattern's arity is
  the fatal arity mismatch.
\<close>

datatype token = Lit string | Wild

fun compile_pattern :: "string \<Rightarrow> token list" where
  "compile_pattern [] = []"
| "compile_pattern (c # cs) =
     (if c = CHR ''*'' then Wild # compile_pattern cs
      else (case compile_pattern cs of
              Lit l # ts \<Rightarrow> Lit (c # l) # ts
            | ts \<Rightarrow> Lit [c] # ts))"

fun arity :: "token list \<Rightarrow> nat" where
  "arity [] = 0"
| "arity (Lit l # ts) = arity ts"
| "arity (Wild # ts) = Suc (arity ts)"

fun strip_prefix :: "string \<Rightarrow> string \<Rightarrow> string option" where
  "strip_prefix [] name = Some name"
| "strip_prefix (c # l) [] = None"
| "strip_prefix (c # l) (d # name) = (if c = d then strip_prefix l name else None)"

fun match_tokens :: "token list \<Rightarrow> string \<Rightarrow> nat list option" where
  "match_tokens [] name = (if name = [] then Some [] else None)"
| "match_tokens (Lit l # ts) name =
     (case strip_prefix l name of
        None \<Rightarrow> None
      | Some rest \<Rightarrow> match_tokens ts rest)"
| "match_tokens (Wild # ts) name =
     (let digits = takeWhile is_digit name in
      if digits = [] then None
      else (case match_tokens ts (dropWhile is_digit name) of
              None \<Rightarrow> None
            | Some binding \<Rightarrow> Some (nat_of_str digits # binding)))"

fun substitute_tokens :: "token list \<Rightarrow> nat list \<Rightarrow> error + string" where
  "substitute_tokens [] [] = Inr []"
| "substitute_tokens [] (n # binding) = Inl ArityMismatch"
| "substitute_tokens (Lit l # ts) binding =
     (case substitute_tokens ts binding of
        Inl e \<Rightarrow> Inl e
      | Inr name \<Rightarrow> Inr (l @ name))"
| "substitute_tokens (Wild # ts) [] = Inl ArityMismatch"
| "substitute_tokens (Wild # ts) (n # binding) =
     (case substitute_tokens ts binding of
        Inl e \<Rightarrow> Inl e
      | Inr name \<Rightarrow> Inr (str_nat n @ name))"

definition match_pattern :: "string \<Rightarrow> string \<Rightarrow> nat list option" where
  "match_pattern pattern name = match_tokens (compile_pattern pattern) name"

definition substitute :: "string \<Rightarrow> nat list \<Rightarrow> error + string" where
  "substitute pattern binding = substitute_tokens (compile_pattern pattern) binding"

text \<open>
  A pattern whose wildcards are each followed by the end of the pattern or by a
  character that is not a digit: the digits of a substituted integer can be told from
  what follows them.
\<close>

fun delimited :: "token list \<Rightarrow> bool" where
  "delimited [] = True"
| "delimited (Lit l # ts) = delimited ts"
| "delimited (Wild # ts) =
     ((case ts of
         [] \<Rightarrow> True
       | Lit [] # _ \<Rightarrow> False
       | Lit (c # l) # _ \<Rightarrow> \<not> is_digit c
       | Wild # _ \<Rightarrow> False) \<and> delimited ts)"

section \<open>Tensors and the merge transform\<close>

text \<open>
  A tensor is its shape and its elements in row-major order; the engine treats it as an
  opaque value.

  Modelled from the spec: \<open>merge_concat\<close> of section 4.4, along axis 0 (the body of
  \<^verbatim>\<open>TransformFns.merge_fc1\<close> is not among the sources). N tensors, N at least 1, are
  concatenated along the axis; their shapes must agree on every other axis, else
  \<open>ShapeMismatch\<close>. In row-major order, concatenating along axis 0 appends the
  elements. \<^verbatim>\<open>merge_fc1\<close> is this merge applied to its two arguments, gate then up.
\<close>

datatype 'a tensor = Tensor (shape: "nat list") (elems: "'a list")

definition merge_concat :: "'a tensor list \<Rightarrow> error + 'a tensor" where
  "merge_concat tensors =
     (case tensors of
        [] \<Rightarrow> Inl TypeError
      | first # _ \<Rightarrow>
          if list_all (\<lambda>u. shape u \<noteq> [] \<and> tl (shape u) = tl (shape first)) tensors
          then Inr (Tensor (sum_list (map (\<lambda>u. hd (shape u)) tensors) # tl (shape first))
                          (concat (map elems tensors)))
          else Inl ShapeMismatch)"

fun call_transform :: "transform_fn \<Rightarrow> 'a tensor list \<Rightarrow> error + 'a tensor" where
  "call_transform merge_fc1 [gate, up] = merge_concat [gate, up]"
| "call_transform merge_fc1 tensors = Inl TypeError"

section \<open>One step of the apply engine\<close>

text \<open>
  Modelled from the spec: step 3 of the Mapping/Apply Engine (section 4.5) for one rule
  and one binding, with \<open>put\<close> of the State Container (section 4.2). The source
  patterns are substituted with the binding and the source keys popped in the declared
  order, the transform function receives the tensors in that order, and the result is
  put under the substituted target pattern; \<open>put\<close> fails with \<open>DuplicateKey\<close> when the
  name is taken.
\<close>

definition dict_put :: "string \<Rightarrow> 'v \<Rightarrow> 'v state_dict \<Rightarrow> error + 'v state_dict" where
  "dict_put k w d = (case map_of d k of
                       Some _ \<Rightarrow> Inl (DuplicateKey k)
                     | None \<Rightarrow> Inr (d @ [(k, w)]))"

fun substitute_all :: "string list \<Rightarrow> nat list \<Rightarrow> error + string list" where
  "substitute_all [] binding = Inr []"
| "substitute_all (pattern # patterns) binding =
     (case substitute pattern binding of
        Inl e \<Rightarrow> Inl e
      | Inr name \<Rightarrow>
          (case substitute_all patterns binding of
             Inl e \<Rightarrow> Inl e
           | Inr names \<Rightarrow> Inr (name # names)))"

fun pop_all :: "string list \<Rightarrow> 'v state_dict \<Rightarrow> error + ('v list \<times> 'v state_dict)" where
  "pop_all [] d = Inr ([], d)"
| "pop_all (k # ks) d =
     (case dict_pop k d of
        Inl e \<Rightarrow> Inl e
      | Inr (w, popped) \<Rightarrow>
          (case pop_all ks popped of
             Inl e \<Rightarrow> Inl e
           | Inr (ws, rest) \<Rightarrow> Inr (w # ws, rest)))"

definition apply_transform ::
  "state_transform \<Rightarrow> nat list \<Rightarrow> 'a tensor state_dict \<times> 'a tensor state_dict \<Rightarrow>
   error + ('a tensor state_dict \<times> 'a tensor state_dict)" where
  "apply_transform t binding containers =
     (case substitute_all (source_key t) binding of
        Inl e \<Rightarrow> Inl e
      | Inr names \<Rightarrow>
     (case pop_all names (fst containers) of
        Inl e \<Rightarrow> Inl e
      | Inr (tensors, source) \<Rightarrow>
     (case call_transform (fn t) tensors of
        Inl e \<Rightarrow> Inl e
      | Inr merged \<Rightarrow>
     (case substitute (target_key t) binding of
        Inl e \<Rightarrow> Inl e
      | Inr target_name \<Rightarrow>
     (case dict_put target_name merged (snd containers) of
        Inl e \<Rightarrow> Inl e
      | Inr target \<Rightarrow> Inr (source, target))))))"

section \<open>Facts about the decimal rendering\<close>

lemma is_digit_digit_char: "d < 10 \<Longrightarrow> is_digit (digit_char d)"
  unfolding is_digit_def digit_char_def by (rule nth_mem) simp

lemma lt10_cases: "d < 10 \<Longrightarrow> d \<in> {0, 1, 2, 3, 4, 5, 6, 7, 8, 9::nat}"
  by auto

lemma digit_val_digit_char: "d < 10 \<Longrightarrow> digit_val (digit_char d) = d"
  using lt10_cases [of d] by (auto simp: digit_val_def digit_char_def)

lemma str_nat_digits: "c \<in> set (str_nat n) \<Longrightarrow> is_digit c"
  by (induction n rule: str_nat.induct)
    (subst (asm) str_nat.simps, auto split: if_splits simp: is_digit_digit_char)

lemma str_nat_nonempty: "str_nat n \<noteq> []"
  by (subst str_nat.simps) simp

lemma nat_of_str_snoc: "nat_of_str (s @ [c]) = 10 * nat_of_str s + digit_val c"
  by (simp add: nat_of_str_def)

lemma nat_of_str_str_nat: "nat_of_str (str_nat n) = n"
proof (induction n rule: str_nat.induct)
  case (1 n)
  show ?case
  proof (cases "n < 10")
    case True
    then show ?thesis
      by (subst str_nat.simps) (simp add: nat_of_str_def digit_val_digit_char)
  next
    case False
    then have "nat_of_str (str_nat n) =
        10 * nat_of_str (str_nat (n div 10)) + digit_val (digit_char (n mod 10))"
      by (subst str_nat.simps) (simp add: nat_of_str_snoc)
    also have "\<dots> = 10 * (n div 10) + n mod 10"
      using 1 False by (simp add: digit_val_digit_char)
    finally show ?thesis by simp
  qed
qed

lemma str_nat_inj: "str_nat m = str_nat n \<Longrightarrow> m = n"
  by (metis nat_of_str_str_nat)

text \<open>
  Two names that consist of a run of digits followed by a non-digit agree only when the
  runs agree: the layer number of a key can be read off it.
\<close>

lemma digits_split:
  assumes eq: "a @ x # r = b @ y # s"
    and da: "\<And>c. c \<in> set a \<Longrightarrow> is_digit c"
    and db: "\<And>c. c \<in> set b \<Longrightarrow> is_digit c"
    and nx: "\<not> is_digit x" and ny: "\<not> is_digit y"
  shows "a = b \<and> x # r = y # s"
proof -
  have "takeWhile is_digit (a @ x # r) = a" using da nx by (simp add: takeWhile_append2)
  moreover have "takeWhile is_digit (b @ y # s) = b" using db ny by (simp add: takeWhile_append2)
  ultimately have "a = b" using eq by simp
  then show ?thesis using eq by simp
qed

lemma not_digit_dot: "\<not> is_digit (CHR ''.'')"
  by (simp add: is_digit_def)

lemma post_attention_key_inj: "post_attention_key i = post_attention_key j \<longleftrightarrow> i = j"
  by (auto simp: post_attention_key_def dest: str_nat_inj)

lemma dense_key_inj: "dense_post_attention_key i = dense_post_attention_key j \<longleftrightarrow> i = j"
  by (auto simp: dense_post_attention_key_def dest: str_nat_inj)

lemma post_neq_dense: "post_attention_key i \<noteq> dense_post_attention_key j"
proof
  assume "post_attention_key i = dense_post_attention_key j"
  then have "str_nat i @ CHR ''.'' # ''post_attention_layernorm.weight''
           = str_nat j @ CHR ''.'' # ''dense-post_attention_layernorm.weight''"
    by (simp add: post_attention_key_def dense_post_attention_key_def)
  then have "str_nat i = str_nat j \<and> CHR ''.'' # ''post_attention_layernorm.weight''
           = CHR ''.'' # ''dense-post_attention_layernorm.weight''"
    by (rule digits_split) (simp_all add: str_nat_digits not_digit_dot)
  then show False by simp
qed

lemma dict_pop_Inr:
  "dict_pop k d = Inr (w, d') \<longleftrightarrow> map_of d k = Some w \<and> d' = AList.delete k d"
  by (auto simp: dict_pop_def split: option.splits)

lemma dict_pop_Inl:
  "dict_pop k d = Inl e \<longleftrightarrow> map_of d k = None \<and> e = KeyError k"
  by (auto simp: dict_pop_def split: option.splits)

lemma map_of_dict_setitem: "map_of (dict_setitem k w d) = (map_of d)(k \<mapsto> w)"
  by (simp add: dict_setitem_def update_conv')

text \<open>One renaming step on the lookup function.\<close>

lemma map_of_rename_step:
  "map_of (dict_setitem (dense_post_attention_key i) w (AList.delete (post_attention_key i) d)) k =
     (if k = dense_post_attention_key i then Some w
      else if k = post_attention_key i then None else map_of d k)"
  by (simp add: map_of_dict_setitem delete_conv')

text \<open>Frame: the loop started at index n only touches keys of layers n, n+1, ...\<close>

lemma modify_loop_frame:
  "modify_loop n freq d = Inr d' \<Longrightarrow>
   (\<forall>j < length freq. freq ! j = 0 \<longrightarrow> k \<noteq> post_attention_key (n + j) \<and> k \<noteq> dense_post_attention_key (n + j)) \<Longrightarrow>
   map_of d' k = map_of d k"
proof (induction freq arbitrary: n d)
  case Nil
  then show ?case by simp
next
  case (Cons use_moe rest)
  have rest_ok: "\<forall>j < length rest. rest ! j = 0 \<longrightarrow>
      k \<noteq> post_attention_key (Suc n + j) \<and> k \<noteq> dense_post_attention_key (Suc n + j)"
  proof (intro allI impI)
    fix j assume "j < length rest" "rest ! j = 0"
    then have "Suc j < length (use_moe # rest)" "(use_moe # rest) ! Suc j = 0" by simp_all
    with Cons.prems(2) show "k \<noteq> post_attention_key (Suc n + j) \<and> k \<noteq> dense_post_attention_key (Suc n + j)"
      by (metis add_Suc_shift)
  qed
  show ?case
  proof (cases "use_moe = 0")
    case False
    with Cons.prems(1) have "modify_loop (Suc n) rest d = Inr d'" by simp
    from Cons.IH [OF this rest_ok] show ?thesis .
  next
    case True
    with Cons.prems(1) obtain w where
      w: "map_of d (post_attention_key n) = Some w" and
      run: "modify_loop (Suc n) rest
              (dict_setitem (dense_post_attention_key n) w (AList.delete (post_attention_key n) d)) = Inr d'"
      by (auto simp: dict_pop_Inr split: sum.splits)
    from Cons.prems(2) True have here: "k \<noteq> post_attention_key n" "k \<noteq> dense_post_attention_key n"
      by force+
    from Cons.IH [OF run rest_ok] here show ?thesis
      by (simp add: map_of_rename_step)
  qed
qed

text \<open>The pass succeeds when every dense-tagged layer has its original key.\<close>

lemma modify_loop_succeeds:
  "(\<forall>j < length freq. freq ! j = 0 \<longrightarrow> map_of d (post_attention_key (n + j)) \<noteq> None) \<Longrightarrow>
   \<exists>d'. modify_loop n freq d = Inr d'"
proof (induction freq arbitrary: n d)
  case Nil
  then show ?case by simp
next
  case (Cons use_moe rest)
  have shift: "\<And>j. j < length rest \<Longrightarrow> rest ! j = 0 \<Longrightarrow>
      map_of d (post_attention_key (Suc n + j)) \<noteq> None"
  proof -
    fix j assume "j < length rest" "rest ! j = 0"
    then have "Suc j < length (use_moe # rest)" "(use_moe # rest) ! Suc j = 0" by simp_all
    with Cons.prems show "map_of d (post_attention_key (Suc n + j)) \<noteq> None"
      by (metis add_Suc_shift)
  qed
  show ?case
  proof (cases "use_moe = 0")
    case False
    then show ?thesis using Cons.IH [of d "Suc n"] shift by simp
  next
    case True
    with Cons.prems have "map_of d (post_attention_key (n + 0)) \<noteq> None"
      by (metis length_Cons nth_Cons_0 zero_less_Suc)
    then obtain w where w: "map_of d (post_attention_key n) = Some w" by auto
    let ?d2 = "dict_setitem (dense_post_attention_key n) w (AList.delete (post_attention_key n) d)"
    have "\<forall>j < length rest. rest ! j = 0 \<longrightarrow> map_of ?d2 (post_attention_key (Suc n + j)) \<noteq> None"
      using shift by (simp add: map_of_rename_step post_neq_dense post_attention_key_inj)
    from Cons.IH [OF this] obtain d' where "modify_loop (Suc n) rest ?d2 = Inr d'" by blast
    with True w show ?thesis by (simp add: dict_pop_def)
  qed
qed

text \<open>What the pass does at a dense-tagged layer.\<close>

lemma modify_loop_dense:
  "modify_loop n freq d = Inr d' \<Longrightarrow> j < length freq \<Longrightarrow> freq ! j = 0 \<Longrightarrow>
   map_of d (post_attention_key (n + j)) \<noteq> None \<and>
   map_of d' (post_attention_key (n + j)) = None \<and>
   map_of d' (dense_post_attention_key (n + j)) = map_of d (post_attention_key (n + j))"
proof (induction freq arbitrary: n d j)
  case Nil
  then show ?case by simp
next
  case (Cons use_moe rest)
  show ?case
  proof (cases "use_moe = 0")
    case False
    with Cons.prems obtain j' where j': "j = Suc j'" by (cases j) auto
    from False Cons.prems(1) have run: "modify_loop (Suc n) rest d = Inr d'" by simp
    from Cons.IH [OF run, of j'] Cons.prems(2,3) j' show ?thesis by simp
  next
    case True
    with Cons.prems(1) obtain w where
      w: "map_of d (post_attention_key n) = Some w" and
      run: "modify_loop (Suc n) rest
              (dict_setitem (dense_post_attention_key n) w (AList.delete (post_attention_key n) d)) = Inr d'"
      by (auto simp: dict_pop_Inr split: sum.splits)
    let ?d2 = "dict_setitem (dense_post_attention_key n) w (AList.delete (post_attention_key n) d)"
    show ?thesis
    proof (cases j)
      case 0
      have untouched: "\<forall>i < length rest. rest ! i = 0 \<longrightarrow>
          k \<noteq> post_attention_key (Suc n + i) \<and> k \<noteq> dense_post_attention_key (Suc n + i)"
        if "k = post_attention_key n \<or> k = dense_post_attention_key n" for k
        using that by (auto simp: post_attention_key_inj dense_key_inj post_neq_dense post_neq_dense [symmetric])
      have "map_of d' (post_attention_key n) = map_of ?d2 (post_attention_key n)"
        by (rule modify_loop_frame [OF run]) (rule untouched, simp)
      moreover have "map_of d' (dense_post_attention_key n) = map_of ?d2 (dense_post_attention_key n)"
        by (rule modify_loop_frame [OF run]) (rule untouched, simp)
      ultimately show ?thesis using 0 w
        by (simp add: map_of_rename_step post_neq_dense)
    next
      case (Suc j')
      with Cons.prems(2,3) have "j' < length rest" "rest ! j' = 0" by simp_all
      from Cons.IH [OF run this] Suc show ?thesis
        by (simp add: map_of_rename_step post_neq_dense post_attention_key_inj)
    qed
  qed
qed

lemma str_nat_0: "str_nat 0 = ''0''" by (simp add: str_nat.simps digit_char_def)
lemma str_nat_1: "str_nat (Suc 0) = ''1''" by (simp add: str_nat.simps digit_char_def)
lemma str_nat_2: "str_nat 2 = ''2''" by (simp add: str_nat.simps digit_char_def)

lemma moe_layer_freq_tiny_config [simp]: "moe_layer_freq (tiny_config freq) = freq"
  by (simp add: tiny_config_def)

section \<open>The renaming pass on dense and MoE layers\<close>

text \<open>
  Claim C1. Provided every dense-tagged layer (tag 0 in \<open>moe_layer_freq\<close>) has its
  \<^verbatim>\<open>model.layers.{i}.post_attention_layernorm.weight\<close> key in the input state dict,
  \<open>modify_source_state\<close> returns a state dict in which, for every dense-tagged layer
  \<open>i\<close>, that key is gone and
  \<^verbatim>\<open>model.layers.{i}.dense-post_attention_layernorm.weight\<close> is bound to the tensor the
  original key was bound to; for every layer with another tag (tag 1, MoE, in particular)
  the original key is bound as before.
\<close>

theorem modify_source_state_renames_dense:
  assumes present: "\<forall>i < length (moe_layer_freq config). moe_layer_freq config ! i = 0 \<longrightarrow>
      map_of state_dict (post_attention_key i) \<noteq> None"
  shows "\<exists>source. modify_source_state config state_dict = Inr source \<and>
     (\<forall>i < length (moe_layer_freq config).
        (moe_layer_freq config ! i = 0 \<longrightarrow>
           map_of source (post_attention_key i) = None \<and>
           map_of source (dense_post_attention_key i) = map_of state_dict (post_attention_key i)) \<and>
        (moe_layer_freq config ! i \<noteq> 0 \<longrightarrow>
           map_of source (post_attention_key i) = map_of state_dict (post_attention_key i)))"
proof -
  from present have "\<forall>j < length (moe_layer_freq config). moe_layer_freq config ! j = 0 \<longrightarrow>
      map_of state_dict (post_attention_key (0 + j)) \<noteq> None" by simp
  from modify_loop_succeeds [OF this] obtain source where
    run: "modify_loop 0 (moe_layer_freq config) state_dict = Inr source" by blast
  have "map_of source (post_attention_key i) = None \<and>
        map_of source (dense_post_attention_key i) = map_of state_dict (post_attention_key i)"
    if "i < length (moe_layer_freq config)" "moe_layer_freq config ! i = 0" for i
    using modify_loop_dense [OF run that] by simp
  moreover have "map_of source (post_attention_key i) = map_of state_dict (post_attention_key i)"
    if "i < length (moe_layer_freq config)" "moe_layer_freq config ! i \<noteq> 0" for i
  proof (rule modify_loop_frame [OF run], intro allI impI)
    fix j assume "j < length (moe_layer_freq config)" "moe_layer_freq config ! j = 0"
    with that have "i \<noteq> j" by auto
    then show "post_attention_key i \<noteq> post_attention_key (0 + j) \<and>
               post_attention_key i \<noteq> dense_post_attention_key (0 + j)"
      by (simp add: post_attention_key_inj post_neq_dense)
  qed
  ultimately show ?thesis using run by (auto simp: modify_source_state_def)
qed

theorem modify_source_state_renames_dense_witness:
  "\<exists>source. modify_source_state (tiny_config [0, 1])
       [(''model.layers.0.post_attention_layernorm.weight'', 10::nat),
        (''model.layers.1.post_attention_layernorm.weight'', 11)] = Inr source \<and>
     map_of source ''model.layers.0.post_attention_layernorm.weight'' = None \<and>
     map_of source ''model.layers.0.dense-post_attention_layernorm.weight'' = Some 10 \<and>
     map_of source ''model.layers.1.post_attention_layernorm.weight'' = Some 11"
proof -
  let ?d = "[(''model.layers.0.post_attention_layernorm.weight'', 10::nat),
             (''model.layers.1.post_attention_layernorm.weight'', 11)]"
  have h: "\<forall>i < length (moe_layer_freq (tiny_config [0, 1])). moe_layer_freq (tiny_config [0, 1]) ! i = 0 \<longrightarrow> map_of ?d (post_attention_key i) \<noteq> None"
    by (simp add: less_Suc_eq post_attention_key_def str_nat_0)
  from modify_source_state_renames_dense [OF h] obtain source where
    run: "modify_source_state (tiny_config [0, 1]) ?d = Inr source" and
    all: "\<forall>i < length (moe_layer_freq (tiny_config [0, 1])).
        (moe_layer_freq (tiny_config [0, 1]) ! i = 0 \<longrightarrow>
           map_of source (post_attention_key i) = None \<and>
           map_of source (dense_post_attention_key i) = map_of ?d (post_attention_key i)) \<and>
        (moe_layer_freq (tiny_config [0, 1]) ! i \<noteq> 0 \<longrightarrow>
           map_of source (post_attention_key i) = map_of ?d (post_attention_key i))"
    by blast
  from all [rule_format, of 0] all [rule_format, of 1] run show ?thesis
    by (simp add: post_attention_key_def dense_post_attention_key_def str_nat_0 str_nat_1)
qed

section \<open>Running the pass twice\<close>

text \<open>
  The loop stops with \<^verbatim>\<open>KeyError\<close> at the first dense-tagged layer whose original key
  is absent.
\<close>

lemma modify_loop_fails:
  "i < length freq \<Longrightarrow> freq ! i = 0 \<Longrightarrow> (\<forall>j < i. freq ! j \<noteq> 0) \<Longrightarrow>
   map_of d (post_attention_key (n + i)) = None \<Longrightarrow>
   modify_loop n freq d = Inl (KeyError (post_attention_key (n + i)))"
proof (induction freq arbitrary: n i)
  case Nil
  then show ?case by simp
next
  case (Cons use_moe rest)
  show ?case
  proof (cases i)
    case 0
    with Cons.prems show ?thesis by (simp add: dict_pop_def)
  next
    case (Suc i')
    with Cons.prems(3) have "use_moe \<noteq> 0" by fastforce
    moreover have "\<forall>j < i'. rest ! j \<noteq> 0"
      using Cons.prems(3) Suc by fastforce
    moreover note Cons.IH [of i' "Suc n"] Cons.prems(1,2,4) Suc
    ultimately show ?thesis by simp
  qed
qed

lemma modify_loop_no_dense: "0 \<notin> set freq \<Longrightarrow> modify_loop n freq d = Inr d"
  by (induction freq arbitrary: n) auto

lemma first_dense_index:
  "(0::int) \<in> set freq \<Longrightarrow> \<exists>i < length freq. freq ! i = 0 \<and> (\<forall>j < i. freq ! j \<noteq> 0)"
proof (induction freq)
  case Nil
  then show ?case by simp
next
  case (Cons t rest)
  show ?case
  proof (cases "t = 0")
    case True
    then have "0 < length (t # rest) \<and> (t # rest) ! 0 = 0 \<and> (\<forall>j < 0. (t # rest) ! j \<noteq> 0)"
      by simp
    then show ?thesis by blast
  next
    case False
    with Cons obtain i where i: "i < length rest" "rest ! i = 0" "\<forall>j < i. rest ! j \<noteq> 0"
      by auto
    have "\<forall>j < Suc i. (t # rest) ! j \<noteq> 0"
      using False i(3) by (auto simp: nth_Cons split: nat.splits)
    with i(1,2) have "Suc i < length (t # rest) \<and> (t # rest) ! Suc i = 0 \<and>
        (\<forall>j < Suc i. (t # rest) ! j \<noteq> 0)" by simp
    then show ?thesis by blast
  qed
qed

text \<open>
  Claim C2, amended. For a classification with at least one dense tag (0), a second run
  of the pass on the container a successful first run returned raises \<^verbatim>\<open>KeyError\<close>
  on the original \<^verbatim>\<open>model.layers.{i}.post_attention_layernorm.weight\<close> key of the
  first dense-tagged layer \<open>i\<close>.
\<close>

theorem modify_source_state_twice_fails:
  assumes first: "modify_source_state config state_dict = Inr source"
    and dense: "0 \<in> set (moe_layer_freq config)"
  shows "\<exists>i < length (moe_layer_freq config). moe_layer_freq config ! i = 0 \<and>
           (\<forall>j < i. moe_layer_freq config ! j \<noteq> 0) \<and>
           modify_source_state config source = Inl (KeyError (post_attention_key i))"
proof -
  from first_dense_index [OF dense] obtain i where
    i: "i < length (moe_layer_freq config)" "moe_layer_freq config ! i = 0" "\<forall>j < i. moe_layer_freq config ! j \<noteq> 0"
    by blast
  from first have run: "modify_loop 0 (moe_layer_freq config) state_dict = Inr source"
    by (simp add: modify_source_state_def)
  from modify_loop_dense [OF run i(1,2)] have "map_of source (post_attention_key (0 + i)) = None"
    by simp
  from modify_loop_fails [OF i this] i show ?thesis
    by (auto simp: modify_source_state_def)
qed

theorem modify_source_state_twice_fails_witness:
  "modify_source_state (tiny_config [0, 1])
     [(''model.layers.1.post_attention_layernorm.weight'', 11::nat),
      (''model.layers.0.dense-post_attention_layernorm.weight'', 10)]
   = Inl (KeyError ''model.layers.0.post_attention_layernorm.weight'')"
proof -
  let ?d = "[(''model.layers.0.post_attention_layernorm.weight'', 10::nat),
             (''model.layers.1.post_attention_layernorm.weight'', 11)]"
  let ?s = "[(''model.layers.1.post_attention_layernorm.weight'', 11::nat),
             (''model.layers.0.dense-post_attention_layernorm.weight'', 10)]"
  have first: "modify_source_state (tiny_config [0, 1]) ?d = Inr ?s"
    by (simp add: modify_source_state_def dict_pop_def dict_setitem_def
        post_attention_key_def dense_post_attention_key_def str_nat_0 str_nat_1)
  have dense: "0 \<in> set (moe_layer_freq (tiny_config [0, 1]))" by simp
  from modify_source_state_twice_fails [OF first dense] obtain i where
    "i < length (moe_layer_freq (tiny_config [0, 1]))" "moe_layer_freq (tiny_config [0, 1]) ! i = 0"
    "modify_source_state (tiny_config [0, 1]) ?s = Inl (KeyError (post_attention_key i))" by blast
  moreover from this(1,2) have "i = 0" by (cases i) auto
  ultimately show ?thesis by (simp add: post_attention_key_def str_nat_0)
qed

text \<open>
  The claim as stated (every classification) fails when no layer is dense-tagged: the
  first run returns the container as it was, and so does the second; no error is raised.
\<close>

theorem modify_source_state_twice_counterexample:
  "modify_source_state (tiny_config [1, 1])
     [(''model.layers.0.post_attention_layernorm.weight'', 10::nat),
      (''model.layers.1.post_attention_layernorm.weight'', 11)]
   = Inr [(''model.layers.0.post_attention_layernorm.weight'', 10),
          (''model.layers.1.post_attention_layernorm.weight'', 11)] \<and>
   \<not> isl (modify_source_state (tiny_config [1, 1])
     [(''model.layers.0.post_attention_layernorm.weight'', 10::nat),
      (''model.layers.1.post_attention_layernorm.weight'', 11)])"
  by (simp add: modify_source_state_def)

section \<open>What the pass leaves alone\<close>

lemma mset_values_delete:
  "distinct (map fst d) \<Longrightarrow> map_of d k = Some w \<Longrightarrow>
   mset (map snd (AList.delete k d)) + {#w#} = mset (map snd d)"
proof (induction d)
  case Nil
  then show ?case by simp
next
  case (Cons p d)
  show ?case
  proof (cases "fst p = k")
    case True
    with Cons.prems have "snd p = w" by (cases p) auto
    moreover from True Cons.prems(1) have "k \<notin> fst ` set d" by auto
    then have "AList.delete k d = d" by (simp add: delete_id)
    ultimately show ?thesis using True by simp
  next
    case False
    with Cons show ?thesis by (cases p) auto
  qed
qed

lemma mset_values_update_fresh:
  "map_of d k = None \<Longrightarrow> mset (map snd (AList.update k w d)) = mset (map snd d) + {#w#}"
  by (induction d) (auto split: if_splits)

lemma distinct_rename_step:
  "distinct (map fst d) \<Longrightarrow>
   distinct (map fst (dict_setitem k' w (AList.delete k d)))"
  by (simp add: dict_setitem_def distinct_update distinct_delete)

lemma mset_values_rename_step:
  assumes "distinct (map fst d)" "map_of d k = Some w" "map_of d k' = None"
  shows "mset (map snd (dict_setitem k' w (AList.delete k d))) = mset (map snd d)"
proof -
  have "map_of (AList.delete k d) k' = None"
    using assms(3) by (simp add: delete_conv')
  then have "mset (map snd (dict_setitem k' w (AList.delete k d)))
      = mset (map snd (AList.delete k d)) + {#w#}"
    unfolding dict_setitem_def by (rule mset_values_update_fresh)
  with mset_values_delete [OF assms(1,2)] show ?thesis by simp
qed

lemma modify_loop_values:
  "modify_loop n freq d = Inr d' \<Longrightarrow> distinct (map fst d) \<Longrightarrow>
   (\<forall>j < length freq. freq ! j = 0 \<longrightarrow> map_of d (dense_post_attention_key (n + j)) = None) \<Longrightarrow>
   mset (map snd d') = mset (map snd d) \<and> distinct (map fst d')"
proof (induction freq arbitrary: n d)
  case Nil
  then show ?case by simp
next
  case (Cons use_moe rest)
  have shift: "map_of d (dense_post_attention_key (Suc n + j)) = None"
    if "j < length rest" "rest ! j = 0" for j
  proof -
    from that have "Suc j < length (use_moe # rest)" "(use_moe # rest) ! Suc j = 0" by simp_all
    with Cons.prems(3) show ?thesis by (metis add_Suc_shift)
  qed
  show ?case
  proof (cases "use_moe = 0")
    case False
    with Cons.prems(1) have "modify_loop (Suc n) rest d = Inr d'" by simp
    from Cons.IH [OF this Cons.prems(2)] shift show ?thesis by blast
  next
    case True
    with Cons.prems(1) obtain w where
      w: "map_of d (post_attention_key n) = Some w" and
      run: "modify_loop (Suc n) rest
              (dict_setitem (dense_post_attention_key n) w (AList.delete (post_attention_key n) d)) = Inr d'"
      by (auto simp: dict_pop_Inr split: sum.splits)
    let ?d2 = "dict_setitem (dense_post_attention_key n) w (AList.delete (post_attention_key n) d)"
    from True Cons.prems(3) have fresh: "map_of d (dense_post_attention_key n) = None"
      by (metis add.right_neutral length_Cons nth_Cons_0 zero_less_Suc)
    have d2: "distinct (map fst ?d2)"
      using Cons.prems(2) by (rule distinct_rename_step)
    have "\<forall>j < length rest. rest ! j = 0 \<longrightarrow> map_of ?d2 (dense_post_attention_key (Suc n + j)) = None"
      using shift by (simp add: map_of_rename_step dense_key_inj post_neq_dense [symmetric])
    from Cons.IH [OF run d2 this] mset_values_rename_step [OF Cons.prems(2) w fresh]
    show ?thesis by simp
  qed
qed

text \<open>
  Claim C6, amended. When the pass succeeds on a state dict (unique keys, as every dict
  has) in which no dense-tagged layer already has a
  \<^verbatim>\<open>model.layers.{i}.dense-post_attention_layernorm.weight\<close> key, the multiset of
  tensor values and the number of entries are the same before and after, and every key
  other than the original and the \<^verbatim>\<open>dense-\<close> key of a dense-tagged layer is bound
  after the pass as it was before.
\<close>

theorem modify_source_state_preserves_values:
  assumes run: "modify_source_state config state_dict = Inr source"
    and keys: "distinct (map fst state_dict)"
    and fresh: "\<forall>i < length (moe_layer_freq config). moe_layer_freq config ! i = 0 \<longrightarrow>
      map_of state_dict (dense_post_attention_key i) = None"
  shows "mset (map snd source) = mset (map snd state_dict) \<and>
         length source = length state_dict \<and>
         (\<forall>k. (\<forall>i < length (moe_layer_freq config). moe_layer_freq config ! i = 0 \<longrightarrow>
                 k \<noteq> post_attention_key i \<and> k \<noteq> dense_post_attention_key i) \<longrightarrow>
              map_of source k = map_of state_dict k)"
proof -
  from run have loop: "modify_loop 0 (moe_layer_freq config) state_dict = Inr source"
    by (simp add: modify_source_state_def)
  from fresh have "\<forall>j < length (moe_layer_freq config). moe_layer_freq config ! j = 0 \<longrightarrow>
      map_of state_dict (dense_post_attention_key (0 + j)) = None" by simp
  from modify_loop_values [OF loop keys this]
  have same_values: "mset (map snd source) = mset (map snd state_dict)" by simp
  from same_values have "size (mset (map snd source)) = size (mset (map snd state_dict))" by simp
  then have len: "length source = length state_dict" by simp
  have "map_of source k = map_of state_dict k"
    if "\<forall>i < length (moe_layer_freq config). moe_layer_freq config ! i = 0 \<longrightarrow>
          k \<noteq> post_attention_key i \<and> k \<noteq> dense_post_attention_key i" for k
    using modify_loop_frame [OF loop, of k] that by simp
  with same_values len show ?thesis by blast
qed

theorem modify_source_state_preserves_values_witness:
  "modify_source_state (tiny_config [0, 1])
     [(''model.layers.0.post_attention_layernorm.weight'', 10::nat),
      (''model.layers.1.post_attention_layernorm.weight'', 11)]
   = Inr [(''model.layers.1.post_attention_layernorm.weight'', 11),
          (''model.layers.0.dense-post_attention_layernorm.weight'', 10)] \<and>
   mset (map snd [(''model.layers.1.post_attention_layernorm.weight'', 11::nat),
                  (''model.layers.0.dense-post_attention_layernorm.weight'', 10)])
   = mset (map snd [(''model.layers.0.post_attention_layernorm.weight'', 10::nat),
                    (''model.layers.1.post_attention_layernorm.weight'', 11)]) \<and>
   map_of [(''model.layers.1.post_attention_layernorm.weight'', 11::nat),
           (''model.layers.0.dense-post_attention_layernorm.weight'', 10)]
     ''model.layers.1.post_attention_layernorm.weight''
   = map_of [(''model.layers.0.post_attention_layernorm.weight'', 10::nat),
             (''model.layers.1.post_attention_layernorm.weight'', 11)]
     ''model.layers.1.post_attention_layernorm.weight''"
proof -
  let ?d = "[(''model.layers.0.post_attention_layernorm.weight'', 10::nat),
             (''model.layers.1.post_attention_layernorm.weight'', 11)]"
  let ?s = "[(''model.layers.1.post_attention_layernorm.weight'', 11::nat),
             (''model.layers.0.dense-post_attention_layernorm.weight'', 10)]"
  let ?k = "''model.layers.1.post_attention_layernorm.weight''"
  have run: "modify_source_state (tiny_config [0, 1]) ?d = Inr ?s"
    by (simp add: modify_source_state_def dict_pop_def dict_setitem_def
        post_attention_key_def dense_post_attention_key_def str_nat_0 str_nat_1)
  have keys: "distinct (map fst ?d)" by simp
  have fresh: "\<forall>i < length (moe_layer_freq (tiny_config [0, 1])). moe_layer_freq (tiny_config [0, 1]) ! i = 0 \<longrightarrow>
      map_of ?d (dense_post_attention_key i) = None"
    by (simp add: less_Suc_eq dense_post_attention_key_def str_nat_0)
  have other: "\<forall>i < length (moe_layer_freq (tiny_config [0, 1])). moe_layer_freq (tiny_config [0, 1]) ! i = 0 \<longrightarrow>
      ?k \<noteq> post_attention_key i \<and> ?k \<noteq> dense_post_attention_key i"
    by (simp add: less_Suc_eq post_attention_key_def dense_post_attention_key_def str_nat_0)
  from modify_source_state_preserves_values [OF run keys fresh] other
  have "mset (map snd ?s) = mset (map snd ?d) \<and> map_of ?s ?k = map_of ?d ?k" by blast
  with run show ?thesis by blast
qed

text \<open>
  The claim as stated fails on a state dict that already holds the \<^verbatim>\<open>dense-\<close> key of
  a dense-tagged layer: the assignment overwrites that entry, so one tensor is lost, the
  container has one entry fewer, and the \<^verbatim>\<open>dense-\<close> key is bound to another tensor
  than before.
\<close>

theorem modify_source_state_preserves_values_counterexample:
  "modify_source_state (tiny_config [0])
     [(''model.layers.0.post_attention_layernorm.weight'', 1::nat),
      (''model.layers.0.dense-post_attention_layernorm.weight'', 2)]
   = Inr [(''model.layers.0.dense-post_attention_layernorm.weight'', 1)] \<and>
   mset (map snd [(''model.layers.0.dense-post_attention_layernorm.weight'', 1::nat)])
   \<noteq> mset (map snd [(''model.layers.0.post_attention_layernorm.weight'', 1::nat),
                      (''model.layers.0.dense-post_attention_layernorm.weight'', 2)]) \<and>
   length [(''model.layers.0.dense-post_attention_layernorm.weight'', 1::nat)]
   \<noteq> length [(''model.layers.0.post_attention_layernorm.weight'', 1::nat),
               (''model.layers.0.dense-post_attention_layernorm.weight'', 2)] \<and>
   map_of [(''model.layers.0.dense-post_attention_layernorm.weight'', 1::nat)]
     ''model.layers.0.dense-post_attention_layernorm.weight''
   \<noteq> map_of [(''model.layers.0.post_attention_layernorm.weight'', 1::nat),
               (''model.layers.0.dense-post_attention_layernorm.weight'', 2)]
     ''model.layers.0.dense-post_attention_layernorm.weight''"
  by (simp add: modify_source_state_def dict_pop_def dict_setitem_def
      post_attention_key_def dense_post_attention_key_def str_nat_0)

section \<open>The expert-bias entry of the mapping table\<close>

lemma base_mapping_no_expert_bias: "map_of base_mapping expert_bias_source = None"
  by (simp add: base_mapping_def expert_bias_source_def)

lemma expert_bias_entry_not_in_base: "(expert_bias_source, expert_bias_target) \<notin> set base_mapping"
  using base_mapping_no_expert_bias by (force simp: map_of_eq_None_iff)

lemma distinct_base_mapping: "distinct (map fst base_mapping)"
  by (simp add: base_mapping_def)

text \<open>
  Claim C4. The mapping table of \<open>convert_state\<close> holds the entry from
  \<^verbatim>\<open>model.layers.*.mlp.gate.e_score_correction_bias\<close> to
  \<^verbatim>\<open>decoder.layers.*.mlp.router.expert_bias\<close> exactly when the configuration has the
  attribute \<^verbatim>\<open>moe_router_enable_expert_bias\<close> and it is true; otherwise the table has
  no entry for that source pattern, and a configuration without the attribute gets the
  same table as one where it is false.
\<close>

theorem convert_state_mapping_expert_bias:
  "((expert_bias_source, expert_bias_target) \<in> set (convert_state_mapping config)
      \<longleftrightarrow> moe_router_enable_expert_bias config = Some True) \<and>
   map_of (convert_state_mapping config) expert_bias_source =
     (if moe_router_enable_expert_bias config = Some True then Some expert_bias_target else None) \<and>
   convert_state_mapping (config\<lparr>moe_router_enable_expert_bias := None\<rparr>) =
     convert_state_mapping (config\<lparr>moe_router_enable_expert_bias := Some False\<rparr>)"
proof (cases "moe_router_enable_expert_bias config = Some True")
  case True
  then have tab: "convert_state_mapping config =
      AList.update expert_bias_source expert_bias_target base_mapping"
    by (simp add: convert_state_mapping_def)
  have "map_of (convert_state_mapping config) expert_bias_source = Some expert_bias_target"
    unfolding tab by (simp add: update_conv')
  moreover from this have "(expert_bias_source, expert_bias_target) \<in> set (convert_state_mapping config)"
    by (rule map_of_SomeD)
  ultimately show ?thesis using True by (simp add: convert_state_mapping_def)
next
  case False
  then have tab: "convert_state_mapping config = base_mapping"
    by (cases "moe_router_enable_expert_bias config") (auto simp: convert_state_mapping_def)
  show ?thesis
    using False base_mapping_no_expert_bias expert_bias_entry_not_in_base
    by (simp add: tab) (simp add: convert_state_mapping_def)
qed

section \<open>The per-layer classification\<close>

lemma list_mul_single: "list_mul [x] k = replicate (nat k) x"
  by (induction "nat k" arbitrary: k) (simp_all add: list_mul_def)

text \<open>
  Claim C8, amended. When \<open>0 \<le> first_k_dense_replace \<le> num_hidden_layers\<close>, the
  classification the importer builds is \<open>first_k_dense_replace\<close> zeros followed by
  \<open>num_hidden_layers - first_k_dense_replace\<close> ones: one tag per layer (its length is
  \<open>num_hidden_layers\<close>), with tag 0 exactly at the leading
  \<open>first_k_dense_replace\<close> indices and tag 1 at the others.
\<close>

theorem importer_moe_layer_freq_one_tag_per_layer:
  assumes "0 \<le> first_k_dense_replace source"
    and "first_k_dense_replace source \<le> num_hidden_layers source"
  shows "importer_moe_layer_freq source =
           replicate (nat (first_k_dense_replace source)) 0 @
           replicate (nat (num_hidden_layers source - first_k_dense_replace source)) 1 \<and>
         int (length (importer_moe_layer_freq source)) = num_hidden_layers source \<and>
         (\<forall>i < length (importer_moe_layer_freq source).
            importer_moe_layer_freq source ! i =
              (if int i < first_k_dense_replace source then 0 else 1))"
proof -
  have eq: "importer_moe_layer_freq source =
           replicate (nat (first_k_dense_replace source)) 0 @
           replicate (nat (num_hidden_layers source - first_k_dense_replace source)) 1"
    by (simp add: importer_moe_layer_freq_def list_mul_single)
  moreover have "int (length (importer_moe_layer_freq source)) = num_hidden_layers source"
    using assms by (simp add: eq)
  moreover have "importer_moe_layer_freq source ! i =
      (if int i < first_k_dense_replace source then 0 else 1)"
    if "i < length (importer_moe_layer_freq source)" for i
    using that assms by (auto simp: eq nth_append)
  ultimately show ?thesis by blast
qed

theorem importer_moe_layer_freq_one_tag_per_layer_witness:
  "importer_moe_layer_freq (tiny_hf_config 3 1) = [0, 1, 1] \<and>
   int (length (importer_moe_layer_freq (tiny_hf_config 3 1))) = 3 \<and>
   importer_moe_layer_freq (tiny_hf_config 3 1) ! 0 = 0 \<and>
   importer_moe_layer_freq (tiny_hf_config 3 1) ! 2 = 1"
proof -
  let ?s = "tiny_hf_config 3 1"
  have lo: "0 \<le> first_k_dense_replace ?s" by (simp add: tiny_hf_config_def)
  have hi: "first_k_dense_replace ?s \<le> num_hidden_layers ?s" by (simp add: tiny_hf_config_def)
  from importer_moe_layer_freq_one_tag_per_layer [OF lo hi]
  have eq: "importer_moe_layer_freq ?s =
           replicate (nat (first_k_dense_replace ?s)) 0 @
           replicate (nat (num_hidden_layers ?s - first_k_dense_replace ?s)) 1"
    and len: "int (length (importer_moe_layer_freq ?s)) = num_hidden_layers ?s"
    and tags: "\<forall>i < length (importer_moe_layer_freq ?s).
            importer_moe_layer_freq ?s ! i =
              (if int i < first_k_dense_replace ?s then 0 else 1)"
    by blast+
  have list: "importer_moe_layer_freq ?s = [0, 1, 1]"
    unfolding eq by (simp add: tiny_hf_config_def numeral_2_eq_2)
  from len have "length (importer_moe_layer_freq ?s) = 3" by (simp add: tiny_hf_config_def)
  with tags [rule_format, of 0] tags [rule_format, of 2] list len show ?thesis
    by (simp add: tiny_hf_config_def)
qed

text \<open>
  The claim as stated fails when \<open>first_k_dense_replace\<close> exceeds
  \<open>num_hidden_layers\<close>: the count of ones is negative, the list of ones is empty, and
  the classification has \<open>first_k_dense_replace\<close> tags for \<open>num_hidden_layers\<close> layers.
\<close>

theorem importer_moe_layer_freq_counterexample:
  "importer_moe_layer_freq (tiny_hf_config 2 3) = [0, 0, 0] \<and>
   int (length (importer_moe_layer_freq (tiny_hf_config 2 3))) \<noteq>
     num_hidden_layers (tiny_hf_config 2 3)"
  by (simp add: importer_moe_layer_freq_def list_mul_def tiny_hf_config_def numeral_3_eq_3)

section \<open>Clamping the device limit\<close>

text \<open>
  Claim C9. When \<open>__post_init__\<close> completes, and the base classes' \<open>__post_init__\<close>
  leaves the two fields alone: if \<open>moe_router_topk_limited_devices\<close> was \<open>None\<close> it
  is \<open>None\<close>; otherwise it is the minimum of its initial value and
  \<open>expert_model_parallel_size\<close>, hence at most \<open>expert_model_parallel_size\<close>.
\<close>

theorem post_init_clamps_limited_devices:
  assumes completes: "DeepSeekConfig_post_init super_post_init self = Inr self'"
    and frame: "\<And>c c'. super_post_init c = Inr c' \<Longrightarrow>
        moe_router_topk_limited_devices c' = moe_router_topk_limited_devices c \<and>
        expert_model_parallel_size c' = expert_model_parallel_size c"
  shows "(moe_router_topk_limited_devices self = None \<longrightarrow>
            moe_router_topk_limited_devices self' = None) \<and>
         (\<forall>limited. moe_router_topk_limited_devices self = Some limited \<longrightarrow>
            moe_router_topk_limited_devices self' =
              Some (min limited (expert_model_parallel_size self)) \<and>
            min limited (expert_model_parallel_size self) \<le> expert_model_parallel_size self')"
proof (cases "moe_router_topk_limited_devices self")
  case None
  with completes have "super_post_init self = Inr self'"
    by (simp add: DeepSeekConfig_post_init_def)
  from frame [OF this] None show ?thesis by simp
next
  case (Some limited)
  let ?c = "self\<lparr>moe_router_topk_limited_devices :=
                   Some (min limited (expert_model_parallel_size self))\<rparr>"
  from Some completes have "super_post_init ?c = Inr self'"
    by (simp add: DeepSeekConfig_post_init_def)
  from frame [OF this] Some show ?thesis by simp
qed

theorem post_init_clamps_limited_devices_witness:
  "DeepSeekConfig_post_init Inr
     ((DeepSeekV2Config (tiny_config [0, 1]))\<lparr>expert_model_parallel_size := 2\<rparr>)
   = Inr ((DeepSeekV2Config (tiny_config [0, 1]))
            \<lparr>expert_model_parallel_size := 2, moe_router_topk_limited_devices := Some 2\<rparr>) \<and>
   moe_router_topk_limited_devices ((DeepSeekV2Config (tiny_config [0, 1]))
            \<lparr>expert_model_parallel_size := 2, moe_router_topk_limited_devices := Some 2\<rparr>)
   = Some (min 3 2) \<and>
   min 3 2 \<le> expert_model_parallel_size ((DeepSeekV2Config (tiny_config [0, 1]))
            \<lparr>expert_model_parallel_size := 2, moe_router_topk_limited_devices := Some 2\<rparr>)"
proof -
  let ?self = "(DeepSeekV2Config (tiny_config [0, 1]))\<lparr>expert_model_parallel_size := 2\<rparr>"
  let ?self' = "(DeepSeekV2Config (tiny_config [0, 1]))
            \<lparr>expert_model_parallel_size := 2, moe_router_topk_limited_devices := Some 2\<rparr>"
  have completes: "DeepSeekConfig_post_init Inr ?self = Inr ?self'"
    by (simp add: DeepSeekConfig_post_init_def DeepSeekV2Config_def)
  have frame: "\<And>c c'. (Inr c :: error + deepseek_config) = Inr c' \<Longrightarrow>
        moe_router_topk_limited_devices c' = moe_router_topk_limited_devices c \<and>
        expert_model_parallel_size c' = expert_model_parallel_size c"
    by simp
  have init: "moe_router_topk_limited_devices ?self = Some 3"
    by (simp add: DeepSeekV2Config_def)
  from post_init_clamps_limited_devices [of Inr ?self ?self', OF completes frame] init
  have "moe_router_topk_limited_devices ?self' =
          Some (min 3 (expert_model_parallel_size ?self)) \<and>
        min 3 (expert_model_parallel_size ?self) \<le> expert_model_parallel_size ?self'"
    by blast
  with completes show ?thesis by simp
qed

section \<open>The default classifications\<close>

text \<open>
  Claim C10. The default \<open>moe_layer_freq\<close> of \<open>DeepSeekV2Config\<close> is one 0 followed by
  59 ones, of length 60, its \<open>num_layers\<close>; that of \<open>DeepSeekV3Config\<close> is three 0s
  followed by 58 ones, of length 61, its \<open>num_layers\<close>. In both, tag 0 stands exactly at
  the leading indices (index 0; indices 0 to 2) and tag 1 at every other index.
\<close>

theorem default_moe_layer_freq_covers_layers:
  "moe_layer_freq (DeepSeekV2Config inherited) = replicate 1 0 @ replicate 59 1 \<and>
   num_layers (DeepSeekV2Config inherited) = 60 \<and>
   int (length (moe_layer_freq (DeepSeekV2Config inherited))) =
     num_layers (DeepSeekV2Config inherited) \<and>
   (\<forall>i < length (moe_layer_freq (DeepSeekV2Config inherited)).
      moe_layer_freq (DeepSeekV2Config inherited) ! i = (if i < 1 then 0 else 1)) \<and>
   moe_layer_freq (DeepSeekV3Config inherited) = replicate 3 0 @ replicate 58 1 \<and>
   num_layers (DeepSeekV3Config inherited) = 61 \<and>
   int (length (moe_layer_freq (DeepSeekV3Config inherited))) =
     num_layers (DeepSeekV3Config inherited) \<and>
   (\<forall>i < length (moe_layer_freq (DeepSeekV3Config inherited)).
      moe_layer_freq (DeepSeekV3Config inherited) ! i = (if i < 3 then 0 else 1))"
proof -
  have v2: "moe_layer_freq (DeepSeekV2Config inherited) = replicate 1 0 @ replicate 59 1"
    by (simp add: DeepSeekV2Config_def list_mul_single)
  have v3: "moe_layer_freq (DeepSeekV3Config inherited) = replicate 3 0 @ replicate 58 1"
    by (simp add: DeepSeekV3Config_def list_mul_single)
  have n2: "num_layers (DeepSeekV2Config inherited) = 60"
    by (simp add: DeepSeekV2Config_def)
  have n3: "num_layers (DeepSeekV3Config inherited) = 61"
    by (simp add: DeepSeekV3Config_def)
  have l2: "int (length (moe_layer_freq (DeepSeekV2Config inherited))) =
      num_layers (DeepSeekV2Config inherited)"
    unfolding v2 n2 by simp
  have l3: "int (length (moe_layer_freq (DeepSeekV3Config inherited))) =
      num_layers (DeepSeekV3Config inherited)"
    unfolding v3 n3 by simp
  have t2: "\<forall>i < length (moe_layer_freq (DeepSeekV2Config inherited)).
      moe_layer_freq (DeepSeekV2Config inherited) ! i = (if i < 1 then 0 else 1)"
    unfolding v2 by (auto simp: nth_append)
  have t3: "\<forall>i < length (moe_layer_freq (DeepSeekV3Config inherited)).
      moe_layer_freq (DeepSeekV3Config inherited) ! i = (if i < 3 then 0 else 1)"
    unfolding v3 by (auto simp: nth_append)
  from v2 n2 l2 t2 v3 n3 l3 t3 show ?thesis by blast
qed

theorem default_moe_layer_freq_covers_layers_witness:
  "moe_layer_freq (DeepSeekV2Config (tiny_config [])) ! 0 = 0 \<and>
   moe_layer_freq (DeepSeekV2Config (tiny_config [])) ! 1 = 1 \<and>
   moe_layer_freq (DeepSeekV2Config (tiny_config [])) ! 59 = 1 \<and>
   moe_layer_freq (DeepSeekV3Config (tiny_config [])) ! 2 = 0 \<and>
   moe_layer_freq (DeepSeekV3Config (tiny_config [])) ! 3 = 1 \<and>
   moe_layer_freq (DeepSeekV3Config (tiny_config [])) ! 60 = 1"
proof -
  let ?v2 = "DeepSeekV2Config (tiny_config [])"
  let ?v3 = "DeepSeekV3Config (tiny_config [])"
  note all = default_moe_layer_freq_covers_layers [of "tiny_config []"]
  from all have len2: "length (moe_layer_freq ?v2) = 60" by simp
  from all have len3: "length (moe_layer_freq ?v3) = 61" by simp
  from all have t2: "\<forall>i < length (moe_layer_freq ?v2).
      moe_layer_freq ?v2 ! i = (if i < 1 then 0 else 1)" by blast
  from all have t3: "\<forall>i < length (moe_layer_freq ?v3).
      moe_layer_freq ?v3 ! i = (if i < 3 then 0 else 1)" by blast
  from t2 [rule_format, of 0] t2 [rule_format, of 1] t2 [rule_format, of 59]
    t3 [rule_format, of 2] t3 [rule_format, of 3] t3 [rule_format, of 60] len2 len3
  show ?thesis by simp
qed

section \<open>Matching what was substituted\<close>

lemma strip_prefix_append: "strip_prefix l (l @ name) = Some name"
  by (induction l) simp_all

lemma strip_prefix_Some: "strip_prefix l name = Some rest \<Longrightarrow> name = l @ rest"
  by (induction l name rule: strip_prefix.induct) (auto split: if_splits)

lemma digits_of_str_nat:
  "rest = [] \<or> \<not> is_digit (hd rest) \<Longrightarrow>
   takeWhile is_digit (str_nat n @ rest) = str_nat n \<and>
   dropWhile is_digit (str_nat n @ rest) = rest"
  by (cases rest) (auto simp: takeWhile_append2 dropWhile_append2 str_nat_digits)

lemma match_tokens_arity: "match_tokens ts name = Some binding \<Longrightarrow> length binding = arity ts"
proof (induction ts arbitrary: name binding)
  case Nil
  then show ?case by (simp split: if_splits)
next
  case (Cons t ts)
  then show ?case
    by (cases t) (auto simp: Let_def split: option.splits if_splits)
qed

lemma substitute_tokens_arity:
  "substitute_tokens ts binding = Inr name \<Longrightarrow> length binding = arity ts"
  by (induction ts binding arbitrary: name rule: substitute_tokens.induct)
    (auto split: sum.splits)

lemma substitute_tokens_match:
  "delimited ts \<Longrightarrow> length binding = arity ts \<Longrightarrow>
   \<exists>name. substitute_tokens ts binding = Inr name \<and> match_tokens ts name = Some binding \<and>
     (case ts of Lit (c # l) # _ \<Rightarrow> name \<noteq> [] \<and> hd name = c | [] \<Rightarrow> name = [] | _ \<Rightarrow> True)"
proof (induction ts arbitrary: binding)
  case Nil
  then show ?case by simp
next
  case (Cons t ts)
  show ?case
  proof (cases t)
    case (Lit l)
    with Cons.prems have "delimited ts" "length binding = arity ts" by simp_all
    from Cons.IH [OF this] obtain name where
      name: "substitute_tokens ts binding = Inr name" "match_tokens ts name = Some binding"
      by blast
    then show ?thesis using Lit
      by (cases l) (simp_all add: strip_prefix_append)
  next
    case Wild
    with Cons.prems obtain n rest where binding: "binding = n # rest" "length rest = arity ts"
      by (cases binding) auto
    from Wild Cons.prems have "delimited ts" by simp
    from Cons.IH [OF this binding(2)] obtain name where
      name: "substitute_tokens ts rest = Inr name" "match_tokens ts name = Some rest"
        "case ts of Lit (c # l) # _ \<Rightarrow> name \<noteq> [] \<and> hd name = c | [] \<Rightarrow> name = [] | _ \<Rightarrow> True"
      by blast
    from Wild Cons.prems(1) name(3) have "name = [] \<or> \<not> is_digit (hd name)"
      by (auto split: list.splits token.splits)
    from digits_of_str_nat [OF this, of n] name(1,2) show ?thesis
      using Wild binding(1) by (simp add: str_nat_nonempty nat_of_str_str_nat)
  qed
qed

lemma substitute_match:
  assumes "delimited (compile_pattern target)"
    and "length binding = arity (compile_pattern target)"
  shows "\<exists>name. substitute target binding = Inr name \<and> match_pattern target name = Some binding"
  using substitute_tokens_match [OF assms] by (auto simp: substitute_def match_pattern_def)

section \<open>The rules of convert_state are well-formed\<close>

lemma update_fresh_append: "map_of al k = None \<Longrightarrow> AList.update k v al = al @ [(k, v)]"
  by (induction al) (auto split: if_splits)

lemma convert_state_mapping_cases:
  "convert_state_mapping config =
     (if moe_router_enable_expert_bias config = Some True
      then base_mapping @ [(expert_bias_source, expert_bias_target)] else base_mapping)"
  by (cases "moe_router_enable_expert_bias config")
    (auto simp: convert_state_mapping_def update_fresh_append base_mapping_no_expert_bias)

definition rule_ok :: "string \<Rightarrow> string \<Rightarrow> bool" where
  "rule_ok source target \<longleftrightarrow>
     delimited (compile_pattern target) \<and>
     arity (compile_pattern source) = arity (compile_pattern target)"

lemma base_mapping_ok: "list_all (\<lambda>(source, target). rule_ok source target) base_mapping"
  by (simp add: base_mapping_def rule_ok_def is_digit_def)

lemma expert_bias_ok: "rule_ok expert_bias_source expert_bias_target"
  by (simp add: expert_bias_source_def expert_bias_target_def rule_ok_def is_digit_def)

lemma transforms_ok:
  "list_all (\<lambda>t. list_all (\<lambda>source. rule_ok source (target_key t)) (source_key t))
     convert_state_transforms"
  by (simp add: convert_state_transforms_def rule_ok_def is_digit_def)

lemma convert_state_rules_ok:
  assumes "(sources, target) \<in> set (convert_state_rules config)" "source \<in> set sources"
  shows "rule_ok source target"
proof -
  from assms(1) have "(sources, target) \<in>
        (\<lambda>(source, target). ([source], target)) ` set (convert_state_mapping config) \<or>
      (sources, target) \<in> (\<lambda>t. (source_key t, target_key t)) ` set convert_state_transforms"
    by (simp add: convert_state_rules_def)
  then consider
    (entry) "(source, target) \<in> set (convert_state_mapping config)" "sources = [source]"
    | (transform) t where "t \<in> set convert_state_transforms" "sources = source_key t"
        "target = target_key t"
  proof (elim disjE imageE)
    fix e assume e: "(sources, target) = (case e of (source, target) \<Rightarrow> ([source], target))"
      "e \<in> set (convert_state_mapping config)"
    obtain a b where "e = (a, b)" by (cases e)
    with e assms(2) have "(source, target) \<in> set (convert_state_mapping config)"
      "sources = [source]" by simp_all
    then show ?thesis by (rule that(1))
  next
    fix t assume "(sources, target) = (source_key t, target_key t)"
      "t \<in> set convert_state_transforms"
    then show ?thesis using that(2) [of t] by simp
  qed
  then show ?thesis
  proof cases
    case entry
    then have "(source, target) \<in> set base_mapping \<or>
        (source, target) = (expert_bias_source, expert_bias_target)"
      by (auto simp: convert_state_mapping_cases split: if_splits)
    then show ?thesis
      using base_mapping_ok expert_bias_ok by (auto simp: list_all_iff)
  next
    case transform
    with transforms_ok assms(2) show ?thesis by (auto simp: list_all_iff)
  qed
qed

section \<open>Bindings carried from source names to target names\<close>

lemma takeWhile_str_nat_Cons:
  "\<not> is_digit c \<Longrightarrow> takeWhile is_digit (str_nat n @ c # rest) = str_nat n"
  using digits_of_str_nat [of "c # rest" n] by simp

lemma dropWhile_str_nat_Cons:
  "\<not> is_digit c \<Longrightarrow> dropWhile is_digit (str_nat n @ c # rest) = c # rest"
  using digits_of_str_nat [of "c # rest" n] by simp

lemma takeWhile_str_nat: "takeWhile is_digit (str_nat n) = str_nat n"
  using digits_of_str_nat [of "[]" n] by simp

lemma dropWhile_str_nat: "dropWhile is_digit (str_nat n) = []"
  using digits_of_str_nat [of "[]" n] by simp

lemmas match_str_nat =
  takeWhile_str_nat_Cons dropWhile_str_nat_Cons takeWhile_str_nat dropWhile_str_nat
  not_digit_dot str_nat_nonempty nat_of_str_str_nat

lemma match_expert_down_proj:
  "match_pattern ''model.layers.*.mlp.experts.*.down_proj.weight''
     (''model.layers.'' @ str_nat L @ ''.mlp.experts.'' @ str_nat E @ ''.down_proj.weight'')
   = Some [L, E]"
  by (simp add: match_pattern_def match_str_nat)

lemma substitute_expert_fc2:
  "substitute ''decoder.layers.*.mlp.experts.linear_fc2.weight*'' [L, E]
   = Inr (''decoder.layers.'' @ str_nat L @ ''.mlp.experts.linear_fc2.weight'' @ str_nat E)"
  by (simp add: substitute_def)

lemma expert_down_proj_in_mapping:
  "(''model.layers.*.mlp.experts.*.down_proj.weight'',
    ''decoder.layers.*.mlp.experts.linear_fc2.weight*'') \<in> set (convert_state_mapping config)"
  by (simp add: convert_state_mapping_cases base_mapping_def)

text \<open>
  Claim C7. For every mapping entry and every transform of \<open>convert_state\<close>, and every
  concrete name that one of its source patterns matches: substituting the captured
  integers into the target pattern succeeds, and the target name carries the same
  integers in the same left-to-right order (the target pattern reads the same binding
  back from it). In particular the per-expert key
  \<^verbatim>\<open>model.layers.{L}.mlp.experts.{E}.down_proj.weight\<close> binds \<open>[L, E]\<close> and produces
  exactly \<^verbatim>\<open>decoder.layers.{L}.mlp.experts.linear_fc2.weight{E}\<close>.
\<close>

theorem convert_state_binding_preserved:
  "(\<forall>(sources, target) \<in> set (convert_state_rules config). \<forall>source \<in> set sources.
      \<forall>name binding. match_pattern source name = Some binding \<longrightarrow>
        (\<exists>target_name. substitute target binding = Inr target_name \<and>
                        match_pattern target target_name = Some binding)) \<and>
   (''model.layers.*.mlp.experts.*.down_proj.weight'',
    ''decoder.layers.*.mlp.experts.linear_fc2.weight*'') \<in> set (convert_state_mapping config) \<and>
   (\<forall>L E.
      match_pattern ''model.layers.*.mlp.experts.*.down_proj.weight''
        (''model.layers.'' @ str_nat L @ ''.mlp.experts.'' @ str_nat E @ ''.down_proj.weight'')
        = Some [L, E] \<and>
      substitute ''decoder.layers.*.mlp.experts.linear_fc2.weight*'' [L, E]
        = Inr (''decoder.layers.'' @ str_nat L @ ''.mlp.experts.linear_fc2.weight'' @ str_nat E))"
proof -
  have "\<exists>target_name. substitute target binding = Inr target_name \<and>
                      match_pattern target target_name = Some binding"
    if rule: "(sources, target) \<in> set (convert_state_rules config)" "source \<in> set sources"
      and matched: "match_pattern source name = Some binding"
    for sources target source name binding
  proof -
    from convert_state_rules_ok [OF rule] have
      ok: "delimited (compile_pattern target)"
        "arity (compile_pattern source) = arity (compile_pattern target)"
      by (simp_all add: rule_ok_def)
    from matched have "length binding = arity (compile_pattern source)"
      by (simp add: match_pattern_def match_tokens_arity)
    with ok(2) have "length binding = arity (compile_pattern target)" by simp
    with ok(1) show ?thesis by (rule substitute_match)
  qed
  then have general: "\<forall>(sources, target) \<in> set (convert_state_rules config). \<forall>source \<in> set sources.
      \<forall>name binding. match_pattern source name = Some binding \<longrightarrow>
        (\<exists>target_name. substitute target binding = Inr target_name \<and>
                        match_pattern target target_name = Some binding)"
    by blast
  show ?thesis
    using general expert_down_proj_in_mapping match_expert_down_proj substitute_expert_fc2
    by blast
qed

theorem convert_state_binding_preserved_witness:
  "match_pattern ''model.layers.*.mlp.experts.*.down_proj.weight''
     ''model.layers.3.mlp.experts.7.down_proj.weight'' = Some [3, 7] \<and>
   (\<exists>target_name.
      substitute ''decoder.layers.*.mlp.experts.linear_fc2.weight*'' [3, 7] = Inr target_name \<and>
      match_pattern ''decoder.layers.*.mlp.experts.linear_fc2.weight*'' target_name = Some [3, 7])"
proof -
  let ?source = "''model.layers.*.mlp.experts.*.down_proj.weight''"
  let ?target = "''decoder.layers.*.mlp.experts.linear_fc2.weight*''"
  have matched: "match_pattern ?source ''model.layers.3.mlp.experts.7.down_proj.weight'' = Some [3, 7]"
    by (simp add: match_pattern_def is_digit_def nat_of_str_def digit_val_def)
  have "(?source, ?target) \<in> set (convert_state_mapping (tiny_config []))"
    by (rule expert_down_proj_in_mapping)
  then have rule: "([?source], ?target) \<in> set (convert_state_rules (tiny_config []))"
    by (force simp: convert_state_rules_def)
  from convert_state_binding_preserved [of "tiny_config []"]
  have "\<forall>(sources, target) \<in> set (convert_state_rules (tiny_config [])). \<forall>source \<in> set sources.
      \<forall>name binding. match_pattern source name = Some binding \<longrightarrow>
        (\<exists>target_name. substitute target binding = Inr target_name \<and>
                        match_pattern target target_name = Some binding)"
    by blast
  from bspec [OF this rule] matched
  have "\<exists>target_name. substitute ?target [3, 7] = Inr target_name \<and>
      match_pattern ?target target_name = Some [3, 7]"
    by simp
  with matched show ?thesis by blast
qed

section \<open>The two post-attention layernorm patterns\<close>

lemma compile_dense_pattern:
  "compile_pattern ''model.layers.*.dense-post_attention_layernorm.weight'' =
     [Lit ''model.layers.'', Wild, Lit ''.dense-post_attention_layernorm.weight'']"
  by simp

lemma compile_moe_pattern:
  "compile_pattern ''model.layers.*.post_attention_layernorm.weight'' =
     [Lit ''model.layers.'', Wild, Lit ''.post_attention_layernorm.weight'']"
  by simp

lemma match_layer_pattern:
  "match_tokens [Lit l, Wild, Lit m] name = Some binding \<Longrightarrow>
   \<exists>rest. name = l @ rest \<and> dropWhile is_digit rest = m"
  by (auto simp: Let_def split: option.splits if_splits dest!: strip_prefix_Some)

lemma post_attention_patterns_disjoint:
  "\<not> (match_pattern ''model.layers.*.dense-post_attention_layernorm.weight'' name \<noteq> None \<and>
      match_pattern ''model.layers.*.post_attention_layernorm.weight'' name \<noteq> None)"
proof
  assume both: "match_pattern ''model.layers.*.dense-post_attention_layernorm.weight'' name \<noteq> None \<and>
      match_pattern ''model.layers.*.post_attention_layernorm.weight'' name \<noteq> None"
  then obtain b1 b2 where
    "match_tokens [Lit ''model.layers.'', Wild, Lit ''.dense-post_attention_layernorm.weight''] name = Some b1"
    "match_tokens [Lit ''model.layers.'', Wild, Lit ''.post_attention_layernorm.weight''] name = Some b2"
    unfolding match_pattern_def compile_dense_pattern compile_moe_pattern by auto
  from match_layer_pattern [OF this(1)] match_layer_pattern [OF this(2)]
  show False by auto
qed

lemma convert_state_rules_split:
  "convert_state_rules config =
     map (\<lambda>(source, target). ([source], target)) base_mapping @
     (if moe_router_enable_expert_bias config = Some True
      then [([expert_bias_source], expert_bias_target)] else []) @
     map (\<lambda>t. (source_key t, target_key t)) convert_state_transforms"
  by (simp add: convert_state_rules_def convert_state_mapping_cases)

lemmas rules_unfolded =
  convert_state_rules_split base_mapping_def convert_state_transforms_def
  expert_bias_source_def expert_bias_target_def

lemma consumers_of_dense_key:
  "filter (\<lambda>(sources, target).
       list_ex (\<lambda>source. match_pattern source (dense_post_attention_key i) \<noteq> None) sources)
     (convert_state_rules config) =
   [([''model.layers.*.dense-post_attention_layernorm.weight''],
     ''decoder.layers.*.mlp.linear_fc1.layer_norm_weight'')]"
  by (simp add: rules_unfolded match_pattern_def dense_post_attention_key_def match_str_nat)

lemma consumers_of_post_attention_key:
  "filter (\<lambda>(sources, target).
       list_ex (\<lambda>source. match_pattern source (post_attention_key i) \<noteq> None) sources)
     (convert_state_rules config) =
   [([''model.layers.*.post_attention_layernorm.weight''],
     ''decoder.layers.*.pre_mlp_layernorm.weight'')]"
  by (simp add: rules_unfolded match_pattern_def post_attention_key_def match_str_nat)

lemma producers_of_dense_target:
  "filter (\<lambda>(sources, target). substitute target [i] =
       Inr (''decoder.layers.'' @ str_nat i @ ''.mlp.linear_fc1.layer_norm_weight''))
     (convert_state_rules config) =
   [([''model.layers.*.dense-post_attention_layernorm.weight''],
     ''decoder.layers.*.mlp.linear_fc1.layer_norm_weight'')]"
  by (simp add: rules_unfolded substitute_def)

lemma producers_of_moe_target:
  "filter (\<lambda>(sources, target). substitute target [i] =
       Inr (''decoder.layers.'' @ str_nat i @ ''.pre_mlp_layernorm.weight''))
     (convert_state_rules config) =
   [([''model.layers.*.post_attention_layernorm.weight''],
     ''decoder.layers.*.pre_mlp_layernorm.weight'')]"
  by (simp add: rules_unfolded substitute_def)

text \<open>
  Claim C5. No concrete key is matched by both
  \<^verbatim>\<open>model.layers.*.dense-post_attention_layernorm.weight\<close> and
  \<^verbatim>\<open>model.layers.*.post_attention_layernorm.weight\<close>. For every layer index \<open>i\<close>, among
  all rules of \<open>convert_state\<close> (mapping entries and transforms) exactly one has a source
  pattern matching the renamed key of layer \<open>i\<close>, the dense entry, and exactly one has a
  source pattern matching the original key, the MoE entry; and each of the two target
  keys of layer \<open>i\<close> is produced from the binding \<open>[i]\<close> by exactly one rule.
\<close>

theorem post_attention_layernorm_one_rule_each:
  "(\<forall>name.
      \<not> (match_pattern ''model.layers.*.dense-post_attention_layernorm.weight'' name \<noteq> None \<and>
         match_pattern ''model.layers.*.post_attention_layernorm.weight'' name \<noteq> None)) \<and>
   (\<forall>i.
      filter (\<lambda>(sources, target).
          list_ex (\<lambda>source. match_pattern source (dense_post_attention_key i) \<noteq> None) sources)
        (convert_state_rules config) =
      [([''model.layers.*.dense-post_attention_layernorm.weight''],
        ''decoder.layers.*.mlp.linear_fc1.layer_norm_weight'')] \<and>
      filter (\<lambda>(sources, target).
          list_ex (\<lambda>source. match_pattern source (post_attention_key i) \<noteq> None) sources)
        (convert_state_rules config) =
      [([''model.layers.*.post_attention_layernorm.weight''],
        ''decoder.layers.*.pre_mlp_layernorm.weight'')] \<and>
      filter (\<lambda>(sources, target). substitute target [i] =
          Inr (''decoder.layers.'' @ str_nat i @ ''.mlp.linear_fc1.layer_norm_weight''))
        (convert_state_rules config) =
      [([''model.layers.*.dense-post_attention_layernorm.weight''],
        ''decoder.layers.*.mlp.linear_fc1.layer_norm_weight'')] \<and>
      filter (\<lambda>(sources, target). substitute target [i] =
          Inr (''decoder.layers.'' @ str_nat i @ ''.pre_mlp_layernorm.weight''))
        (convert_state_rules config) =
      [([''model.layers.*.post_attention_layernorm.weight''],
        ''decoder.layers.*.pre_mlp_layernorm.weight'')])"
  using post_attention_patterns_disjoint consumers_of_dense_key consumers_of_post_attention_key
    producers_of_dense_target producers_of_moe_target
  by blast

end
